theory Spec2Isabelle
  imports Main
begin

section \<open>The build script \<open>build.py\<close>: data model\<close>

text \<open>
  The script drives external tools. Its model makes every effect explicit: what it
  prints, which processes it starts, and what it asks the operating system. Exceptions
  are values of type \<open>error\<close>; a function that can raise returns \<open>error + 'a\<close>.
\<close>

datatype error =
    RuntimeError string
  | KeyError string
  | UnboundLocalError string
  | OSError string
  | ValueError string

text \<open>
  A command is a Python list whose elements are strings or integers (the job count is
  put into the make command as an \<open>int\<close>); \<open>execute\<close> converts each with \<open>str\<close>.
\<close>

datatype arg = Str string | Num int

text \<open>The \<open>argparse\<close> namespace returned by \<open>parser.parse_args()\<close>. An option with
  \<open>action="append"\<close> is \<open>None\<close> when absent and the list of its values otherwise;
  \<open>jobs\<close> is \<open>None\<close> when absent.\<close>

record namespace =
  release :: bool
  debug :: bool
  jobs :: "int option"
  confirm :: bool
  dry_run :: bool
  silent :: bool
  qmake_args :: "string list option"
  webkit_qmake_args :: "string list option"
  phantomjs_qmake_args :: "string list option"
  qt_config :: "string list option"
  git_clean_qtbase :: bool
  git_clean_qtwebkit :: bool
  skip_qtbase :: bool
  skip_configure_qtbase :: bool
  skip_qtwebkit :: bool
  skip_configure_qtwebkit :: bool
  skip_git :: bool
  disable_touch_events :: bool

text \<open>What the file system answers: \<open>os.path.isfile\<close>, \<open>os.access(_, os.X_OK)\<close>,
  \<open>os.path.exists\<close> and \<open>os.path.isdir\<close>. It is part of the state, because the
  processes the script starts change it.\<close>

record filesys =
  isfile :: "string \<Rightarrow> bool"
  access_X_OK :: "string \<Rightarrow> bool"
  path_exists :: "string \<Rightarrow> bool"
  isdir :: "string \<Rightarrow> bool"

text \<open>
  A character of the model is a code point below 256 (a byte under Python 2). The
  script runs under Python 2 and under Python 3, which classify characters
  differently; \<open>python3\<close> says which interpreter runs it.

  The host: \<open>platform.system()\<close>, \<open>os.environ\<close>, \<open>multiprocessing.cpu_count()\<close>, the
  library functions whose result depends on the platform and on the working directory
  (\<open>os.path.abspath\<close> after \<open>main\<close>'s \<open>os.chdir\<close>, \<open>os.path.join\<close>, \<open>os.pathsep\<close>,
  \<open>shlex.split\<close>), the two module-level paths computed from \<open>__file__\<close>, and the
  behaviour of the processes: \<open>popen\<close> is \<open>subprocess.Popen(...)\<close> followed by
  \<open>wait()\<close> (the return code, or \<open>OSError\<close> when the program cannot be started),
  \<open>call\<close> is \<open>subprocess.call(..., shell=True)\<close>, whose result the script ignores.
\<close>

record host =
  python3 :: bool
  system :: string
  environ :: "string \<rightharpoonup> string"
  cpu_count :: int
  abspath :: "string \<Rightarrow> string"
  path_join :: "string \<Rightarrow> string \<Rightarrow> string"
  pathsep :: char
  shlex_split :: "string \<Rightarrow> error + string list"
  root :: string
  script_dir :: string
  popen :: "string list \<Rightarrow> string \<Rightarrow> filesys \<Rightarrow> (error + int) \<times> filesys"
  call :: "string \<Rightarrow> filesys \<Rightarrow> filesys"

text \<open>The observable effects, in the order they happen. \<open>Executing wd cmd\<close> is the
  line \<open>print("Executing in %s: %s" % ...)\<close> of \<open>execute\<close>; \<open>Popen cmd wd\<close> is a
  process started by \<open>subprocess.Popen\<close>; \<open>Call line\<close> is a shell started by
  \<open>subprocess.call\<close>.\<close>

datatype event =
    Print string
  | Write string
  | Stderr string
  | Executing string "string list"
  | Popen "string list" string
  | Call string
  | Putenv string string
  | Chdir string

text \<open>The builder object (\<open>self.options\<close>, \<open>self.makeCommand\<close>) together with the
  file system and the effects so far.\<close>

record state =
  options :: namespace
  makeCommand :: "arg list"
  fs :: filesys
  out :: "event list"

type_synonym 'a action = "state \<Rightarrow> (error + 'a) \<times> state"

definition returnM :: "'a \<Rightarrow> 'a action" where
  "returnM x s = (Inr x, s)"

definition raiseM :: "error \<Rightarrow> 'a action" where
  "raiseM e s = (Inl e, s)"

definition bindM :: "'a action \<Rightarrow> ('a \<Rightarrow> 'b action) \<Rightarrow> 'b action" where
  "bindM m k s = (case m s of (Inl e, s') \<Rightarrow> (Inl e, s') | (Inr x, s') \<Rightarrow> k x s')"

definition emit :: "event \<Rightarrow> unit action" where
  "emit e s = (Inr (), s\<lparr>out := out s @ [e]\<rparr>)"

section \<open>Strings\<close>

text \<open>\<open>sep.join(xs)\<close>.\<close>

fun join :: "string \<Rightarrow> string list \<Rightarrow> string" where
  "join sep [] = []"
| "join sep [x] = x"
| "join sep (x # y # ys) = x @ sep @ join sep (y # ys)"

text \<open>\<open>s.split(c)\<close> for a separator of one character: every occurrence splits, and
  the result is never empty.\<close>

fun split_chr :: "char \<Rightarrow> string \<Rightarrow> string list" where
  "split_chr c [] = [[]]"
| "split_chr c (x # xs) =
     (if x = c then [] # split_chr c xs
      else (case split_chr c xs of [] \<Rightarrow> [[x]] | y # ys \<Rightarrow> (x # y) # ys))"

text \<open>\<open>s.strip(chars)\<close>.\<close>

definition strip_chars :: "string \<Rightarrow> string \<Rightarrow> string" where
  "strip_chars chars s =
     rev (dropWhile (\<lambda>c. c \<in> set chars) (rev (dropWhile (\<lambda>c. c \<in> set chars) s)))"

text \<open>White space: what \<open>\s\<close> of \<open>re\<close> matches and what \<open>strip()\<close> removes. Under
  Python 2 these are the six ASCII characters tab, line feed, vertical tab, form feed,
  carriage return and space. Under Python 3 a string is Unicode, and the code points
  \<open>0x1C\<close> to \<open>0x1F\<close>, \<open>0x85\<close> and \<open>0xA0\<close> are white space too. The class \<open>[0-9]\<close>
  is the ten ASCII digits under both.\<close>

definition isspace :: "host \<Rightarrow> char \<Rightarrow> bool" where
  "isspace h c =
     (let n = (of_char c :: nat)
      in (9 \<le> n \<and> n \<le> 13) \<or> n = 32
         \<or> (python3 h \<and> ((28 \<le> n \<and> n \<le> 31) \<or> n = 133 \<or> n = 160)))"

definition isdigit :: "char \<Rightarrow> bool" where
  "isdigit c = (c \<in> set ''0123456789'')"

definition strip :: "host \<Rightarrow> string \<Rightarrow> string" where
  "strip h s = rev (dropWhile (isspace h) (rev (dropWhile (isspace h) s)))"

text \<open>\<open>s.lower()\<close>: the letters \<open>A\<close> to \<open>Z\<close>, and under Python 3 also the capital
  letters of Latin-1 (\<open>0xC0\<close> to \<open>0xDE\<close> without the sign \<open>0xD7\<close>), are moved by 32.\<close>

definition lower_chr :: "host \<Rightarrow> char \<Rightarrow> char" where
  "lower_chr h c =
     (let n = (of_char c :: nat)
      in if (65 \<le> n \<and> n \<le> 90) \<or> (python3 h \<and> 192 \<le> n \<and> n \<le> 222 \<and> n \<noteq> 215)
         then char_of (n + 32) else c)"

definition lower :: "host \<Rightarrow> string \<Rightarrow> string" where
  "lower h s = map (lower_chr h) s"

text \<open>\<open>s.replace(c, t)\<close> for one character \<open>c\<close>.\<close>

definition replace_chr :: "char \<Rightarrow> string \<Rightarrow> string \<Rightarrow> string" where
  "replace_chr c t s = concat (map (\<lambda>x. if x = c then t else [x]) s)"

text \<open>\<open>str(n)\<close> for an integer.\<close>

definition digit_chr :: "nat \<Rightarrow> char" where
  "digit_chr n = ''0123456789'' ! (n mod 10)"

function str_nat :: "nat \<Rightarrow> string" where
  "str_nat n = (if n < 10 then [digit_chr n] else str_nat (n div 10) @ [digit_chr n])"
  by pat_completeness auto
termination
  by (relation "measure id") auto

definition str_int :: "int \<Rightarrow> string" where
  "str_int i = (if i < 0 then CHR ''-'' # str_nat (nat (- i)) else str_nat (nat i))"

fun str :: "arg \<Rightarrow> string" where
  "str (Str s) = s"
| "str (Num i) = str_int i"

text \<open>\<open>re.match("-j\s*[0-9]+", s)\<close>: the match is anchored at the start of \<open>s\<close> only.
  After \<open>-j\<close> the white space is skipped; a digit must follow (no white space is a
  digit, so backtracking cannot find another match).\<close>

fun re_match_j :: "host \<Rightarrow> string \<Rightarrow> bool" where
  "re_match_j h (a # b # rest) =
     (a = CHR ''-'' \<and> b = CHR ''j'' \<and>
      (case dropWhile (isspace h) rest of [] \<Rightarrow> False | d # _ \<Rightarrow> isdigit d))"
| "re_match_j h _ = False"

text \<open>Whether the pattern \<open>-j\s*[0-9]+\<close> matches anywhere in \<open>s\<close> (what \<open>re.search\<close>
  would answer). The script does not call it; it is what the comment at line 127
  (\<open>does not contain any "-j N"\<close>) speaks of, and the statement about the make command
  uses it to say that a value has no job count at all.\<close>

fun re_search_j :: "host \<Rightarrow> string \<Rightarrow> bool" where
  "re_search_j h [] = False"
| "re_search_j h (c # cs) = (re_match_j h (c # cs) \<or> re_search_j h cs)"

text \<open>\<open>os.getenv(name, default)\<close>.\<close>

definition getenv :: "host \<Rightarrow> string \<Rightarrow> string \<Rightarrow> string" where
  "getenv h name dflt = (case environ h name of None \<Rightarrow> dflt | Some v \<Rightarrow> v)"

section \<open>Module-level data and helpers\<close>

definition third_party_names :: "string list" where
  "third_party_names = [''libicu'', ''libxml'', ''openssl'', ''zlib'']"

definition third_party_path :: "host \<Rightarrow> string" where
  "third_party_path h =
     path_join h (path_join h (path_join h (root h) ''src'') ''qt'') ''3rdparty''"

definition qt_compile_defs :: "string list" where
  "qt_compile_defs =
    [''QT_NO_GRAPHICSVIEW'',
     ''QT_NO_GRAPHICSEFFECT'',
     ''QT_NO_STYLESHEET'',
     ''QT_NO_STYLE_CDE'',
     ''QT_NO_STYLE_CLEANLOOKS'',
     ''QT_NO_STYLE_MOTIF'',
     ''QT_NO_STYLE_PLASTIQUE'',
     ''QT_NO_PRINTPREVIEWDIALOG'']"

record search_path =
  name :: string
  header :: string
  flags :: "string list"

definition openssl_search_paths :: "search_path list" where
  "openssl_search_paths =
    [\<lparr>name = ''Brew'',
      header = ''/usr/local/opt/openssl/include/openssl/opensslv.h'',
      flags = [''-I/usr/local/opt/openssl/include'', ''-L/usr/local/opt/openssl/lib'']\<rparr>,
     \<lparr>name = ''MacPorts'',
      header = ''/opt/local/include/openssl/opensslv.h'',
      flags = [''-I/opt/local/include'', ''-L/opt/local/lib'']\<rparr>]"

definition isExe :: "filesys \<Rightarrow> string \<Rightarrow> bool" where
  "isExe f fpath = (isfile f fpath \<and> access_X_OK f fpath)"

text \<open>The loop of \<open>which\<close> over the entries of \<open>PATH\<close>; \<open>path.strip("")\<close> strips
  nothing.\<close>

fun which_loop :: "host \<Rightarrow> filesys \<Rightarrow> string \<Rightarrow> string list \<Rightarrow> string option" where
  "which_loop h f program [] = None"
| "which_loop h f program (path # rest) =
     (let path = strip_chars [] path;
          exe_file = path_join h path program
      in if isExe f exe_file then Some exe_file else which_loop h f program rest)"

text \<open>\<open>which\<close>: \<open>os.environ["PATH"]\<close> raises \<open>KeyError\<close> when the variable is not
  set; the result \<open>None\<close> is Python's \<open>None\<close>.\<close>

definition which :: "host \<Rightarrow> filesys \<Rightarrow> string \<Rightarrow> error + string option" where
  "which h f program =
     (if isExe f program then Inr (Some program)
      else (case environ h ''PATH'' of
              None \<Rightarrow> Inl (KeyError ''PATH'')
            | Some p \<Rightarrow> Inr (which_loop h f program (split_chr (pathsep h) p))))"

definition qmakePath :: "host \<Rightarrow> string" where
  "qmakePath h =
     (let exe = ''qmake'';
          exe = (if system h = ''Windows'' then exe @ ''.exe'' else exe)
      in abspath h (''src/qt/qtbase/bin/'' @ exe))"

definition findThirdPartyDeps :: "host \<Rightarrow> string list \<times> string list" where
  "findThirdPartyDeps h =
     (concat (map (\<lambda>dep. [''-I'', path_join h (path_join h (third_party_path h) dep) ''include''])
                  third_party_names),
      concat (map (\<lambda>dep. [''-L'', path_join h (path_join h (third_party_path h) dep) ''lib''])
                  third_party_names))"

section \<open>The builder\<close>

text \<open>\<open>PhantomJSBuilder.__init__\<close>. A job count of \<open>0\<close> is false in Python, so
  \<open>if self.options.jobs\<close> treats it like an absent one. \<open>not makeExe\<close> holds for
  \<open>None\<close> and for the empty string. The constructor stores the namespace and may set
  its \<open>skip_git\<close>.\<close>

definition init :: "host \<Rightarrow> namespace \<Rightarrow> filesys \<Rightarrow> event list \<Rightarrow> error + state" where
  "init h opts f evs =
     (case (if system h = ''Windows'' then
              (case which h f ''jom.exe'' of
                 Inl e \<Rightarrow> Inl e
               | Inr makeExe \<Rightarrow>
                   Inr [Str (case makeExe of
                               None \<Rightarrow> ''nmake''
                             | Some p \<Rightarrow> if p = [] then ''nmake'' else p),
                        Str ''/NOLOGO''])
            else
              (let dflt = (if \<not> re_match_j h (getenv h ''MAKEFLAGS'' [])
                           then [Str ''-j'', Num (cpu_count h)] else []);
                   flags = (case jobs opts of
                              None \<Rightarrow> dflt
                            | Some n \<Rightarrow> if n \<noteq> 0 then [Str ''-j'', Num n] else dflt)
               in Inr ([Str ''make''] @ flags))) of
        Inl e \<Rightarrow> Inl e
      | Inr mk \<Rightarrow>
          Inr \<lparr>options = (if \<not> isdir f ''.git'' then opts\<lparr>skip_git := True\<rparr> else opts),
               makeCommand = mk, fs = f, out = evs\<rparr>)"

text \<open>\<open>execute\<close>: the command line is printed in both modes; with \<open>dry_run\<close> nothing
  is started and the result is \<open>0\<close>.\<close>

definition execute :: "host \<Rightarrow> arg list \<Rightarrow> string \<Rightarrow> int action" where
  "execute h command workingDirectory s =
     (let command = map str command;
          workingDirectory = abspath h workingDirectory;
          s1 = s\<lparr>out := out s @ [Executing workingDirectory command]\<rparr>
      in if dry_run (options s1) then (Inr 0, s1)
         else (case popen h command workingDirectory (fs s1) of
                 (r, f') \<Rightarrow>
                   (r, s1\<lparr>out := out s1 @ [Popen command workingDirectory], fs := f'\<rparr>)))"

text \<open>\<open>subprocess.call(line, shell=True)\<close>, used directly by the build steps.\<close>

definition subprocess_call :: "host \<Rightarrow> string \<Rightarrow> unit action" where
  "subprocess_call h line s =
     (Inr (), s\<lparr>out := out s @ [Call line], fs := call h line (fs s)\<rparr>)"

definition gitClean :: "host \<Rightarrow> string \<Rightarrow> int action" where
  "gitClean h path s =
     (if skip_git (options s) then returnM 0 s
      else execute h [Str ''git'', Str ''clean'', Str ''-xfd''] path s)"

definition make :: "host \<Rightarrow> string \<Rightarrow> int action" where
  "make h path s = execute h (makeCommand s) path s"

text \<open>The command list of \<open>qmake\<close> (lines 164 to 168): \<open>if x: command.extend(x)\<close>
  adds nothing for \<open>None\<close> and for the empty list.\<close>

definition qmake_command :: "host \<Rightarrow> namespace \<Rightarrow> string list option \<Rightarrow> string list" where
  "qmake_command h opts extra =
     (let command = [qmakePath h];
          command = (case qmake_args opts of
                       None \<Rightarrow> command
                     | Some a \<Rightarrow> if a = [] then command else command @ a);
          command = (case extra of
                       None \<Rightarrow> command
                     | Some a \<Rightarrow> if a = [] then command else command @ a)
      in command)"

definition qmake :: "host \<Rightarrow> string \<Rightarrow> string list option \<Rightarrow> int action" where
  "qmake h path extra s =
     (let qm = qmakePath h
      in if \<not> isExe (fs s) qm \<and> \<not> dry_run (options s)
         then raiseM (RuntimeError (''Could not find QMake executable: '' @ qm)) s
         else execute h (map Str (qmake_command h (options s) extra)) path s)"

definition windows_platform_options :: "string list" where
  "windows_platform_options =
    [''-mp'', ''-static-runtime'', ''-no-cetest'', ''-no-angle'', ''-icu'', ''-openssl'',
     ''-openssl-linked'']"

definition unix_platform_options :: "string list" where
  "unix_platform_options =
    [''-qpa'', ''phantom'',
     ''-no-qpa-platform-guard'',
     ''-openssl'', ''-openssl-linked'',
     ''-no-openvg'',
     ''-no-eglfs'',
     ''-no-egl'',
     ''-no-glib'',
     ''-no-cups'',
     ''-no-sm'',
     ''-no-xkb'',
     ''-no-xcb'',
     ''-no-kms'',
     ''-no-linuxfb'',
     ''-no-directfb'',
     ''-no-mtdev'',
     ''-no-libudev'',
     ''-no-evdev'',
     ''-no-feature-printpreviewwidget'']"

text \<open>The loop over \<open>openssl_search_paths\<close> (lines 228 to 232), on the pair
  \<open>(openssl_found, platformOptions)\<close>. The loop has no \<open>break\<close>.\<close>

fun search_openssl ::
  "search_path list \<Rightarrow> bool \<times> string list \<Rightarrow> state \<Rightarrow> (bool \<times> string list) \<times> state" where
  "search_openssl [] acc s = (acc, s)"
| "search_openssl (sp # rest) (openssl_found, platformOptions) s =
     (if path_exists (fs s) (header sp)
      then search_openssl rest (True, platformOptions @ flags sp)
             (s\<lparr>out := out s @ [Print (''Found OpenSSL installed via '' @ name sp)]\<rparr>)
      else search_openssl rest (openssl_found, platformOptions) s)"

text \<open>\<open>platformQtConfigureOptions\<close>. In the branch of a non-empty \<open>OPENSSL\<close> the local
  variable \<open>openssl_found\<close> is assigned only when the header exists, so without the
  header \<open>if not openssl_found\<close> reads an unassigned local: Python raises
  \<open>UnboundLocalError\<close> there and line 245 is not reached.\<close>

definition platformQtConfigureOptions :: "host \<Rightarrow> string list action" where
  "platformQtConfigureOptions h s =
     (if system h = ''Windows'' then
        (let platformOptions = windows_platform_options;
             deps = findThirdPartyDeps h;
             platformOptions = platformOptions @ fst deps;
             platformOptions = platformOptions @ snd deps
         in returnM platformOptions s)
      else
        (let platformOptions = unix_platform_options;
             platformOptions = (if silent (options s) then platformOptions @ [''-silent'']
                                else platformOptions)
         in if system h = ''Darwin'' then
              (let platformOptions = platformOptions @ [''-no-pkg-config''];
                   openssl = getenv h ''OPENSSL'' []
               in if openssl = [] then
                    (case search_openssl openssl_search_paths (False, platformOptions) s of
                       ((openssl_found, platformOptions), s') \<Rightarrow>
                         if \<not> openssl_found
                         then raiseM (RuntimeError ''Could not find OpenSSL'') s'
                         else returnM platformOptions s')
                  else
                    (if path_exists (fs s) (openssl @ ''/include/openssl/opensslv.h'')
                     then
                       (let openssl_include = ''-I'' @ openssl @ ''/include'';
                            openssl_lib = ''-L'' @ openssl @ ''/lib'';
                            platformOptions = platformOptions @ [openssl_include, openssl_lib]
                        in bindM (emit (Print (''Using OpenSSL at '' @ openssl)))
                             (\<lambda>_. returnM platformOptions) s)
                     else raiseM (UnboundLocalError ''openssl_found'') s))
            else
              returnM (platformOptions @ [''-fontconfig'', ''-icu'']) s))"

text \<open>The computed start of the configure command (lines 258 to 295): the executable,
  the fixed flags, and a \<open>-D\<close> pair for each entry of \<open>qt_compile_defs\<close>.\<close>

definition configure_prefix :: "host \<Rightarrow> string list" where
  "configure_prefix h =
     (let configureExe = abspath h ''src/qt/qtbase/configure'';
          configureExe = (if system h = ''Windows'' then configureExe @ ''.bat''
                          else configureExe);
          configure =
            [configureExe,
             ''-static'',
             ''-opensource'',
             ''-confirm-license'',
             ''-prefix'', abspath h ''src/qt/qtbase'',
             ''-qt-zlib'',
             ''-qt-libpng'',
             ''-qt-libjpeg'',
             ''-qt-pcre'',
             ''-nomake'', ''examples'',
             ''-nomake'', ''tools'',
             ''-nomake'', ''tests'',
             ''-no-dbus'',
             ''-no-opengl'',
             ''-no-qml-debug'',
             ''-no-sql-db2'',
             ''-no-sql-ibase'',
             ''-no-sql-mysql'',
             ''-no-sql-oci'',
             ''-no-sql-odbc'',
             ''-no-sql-psql'',
             ''-no-sql-sqlite'',
             ''-no-sql-sqlite2'',
             ''-no-sql-tds'',
             ''-no-tslib'',
             ''-no-xcb-xlib'']
      in configure @ concat (map (\<lambda>qt_compile_def. [''-D'', qt_compile_def]) qt_compile_defs))"

text \<open>The list \<open>configure\<close> of \<open>configureQtBase\<close> as it stands at line 309: the
  computed start, the platform options, the tokens of \<open>--qt-config\<close>
  (\<open>''.join(...).split(" ")\<close>), and then the build mode.\<close>

definition configure_list :: "host \<Rightarrow> string list action" where
  "configure_list h =
     bindM (platformQtConfigureOptions h) (\<lambda>platformOptions s.
       (let configure = configure_prefix h @ platformOptions;
            configure = (case qt_config (options s) of
                           None \<Rightarrow> configure
                         | Some vs \<Rightarrow>
                             if vs = [] then configure
                             else configure @ split_chr CHR '' '' (concat vs));
            configure = (if debug (options s) then configure @ [''-debug'']
                         else if release (options s) then configure @ [''-release'']
                         else configure @ [''-release''])
        in returnM configure s))"

definition configureQtBase :: "host \<Rightarrow> unit action" where
  "configureQtBase h =
     bindM (emit (Print ''configuring Qt Base, please wait...'')) (\<lambda>_.
     bindM (configure_list h) (\<lambda>configure.
     bindM (execute h (map Str configure) ''src/qt/qtbase'') (\<lambda>rc.
       if rc \<noteq> 0 then raiseM (RuntimeError ''Configuration of Qt Base failed.'')
       else returnM ())))"

definition buildQtBase :: "host \<Rightarrow> unit action" where
  "buildQtBase h s =
     (if skip_qtbase (options s) then emit (Print ''Skipping build of Qt Base'') s
      else
        bindM (subprocess_call h
                 (join '' '' [''rm'', abspath h ''src/qt/qtbase/lib/libQt5WebKit*''])) (\<lambda>_.
        bindM (subprocess_call h
                 (join '' '' [''rm'', abspath h ''src/qt/qtbase/mkspecs/modules/qt_lib_webkit*''])) (\<lambda>_.
        bindM (\<lambda>s. if git_clean_qtbase (options s)
                    then bindM (gitClean h ''src/qt/qtbase'') (\<lambda>_. returnM ()) s
                    else returnM () s) (\<lambda>_.
        bindM (\<lambda>s. if git_clean_qtbase (options s) \<or> \<not> skip_configure_qtbase (options s)
                    then configureQtBase h s
                    else returnM () s) (\<lambda>_.
        bindM (emit (Print ''building Qt Base, please wait...'')) (\<lambda>_.
        bindM (make h ''src/qt/qtbase'') (\<lambda>rc.
          if rc \<noteq> 0 then raiseM (RuntimeError ''Building Qt Base failed.'')
          else returnM ())))))) s)"

definition cmakeArgs :: "host \<Rightarrow> string \<Rightarrow> string list" where
  "cmakeArgs h enable_touch_events =
    [''-Wno-dev'',
     ''-DCMAKE_INSTALL_PREFIX='' @ abspath h ''src/qt/qtwebkit'',
     ''-DCMAKE_PREFIX_PATH='' @ abspath h ''src/qt/qtbase'',
     ''-DQT_COMPILE_DEFINITIONS='' @ [CHR 0x22] @ join '' '' qt_compile_defs @ [CHR 0x22],
     ''-DENABLE_TOOLS=OFF'',
     ''-DENABLE_API_TESTS=OFF'',
     ''-DENABLE_TEST_SUPPORT=OFF'',
     ''-DENABLE_FTL_JIT=OFF'',
     ''-DENABLE_INDEXED_DATABASE=OFF'',
     ''-DENABLE_GSTREAMER=OFF'',
     ''-DENABLE_TOUCH_EVENTS='' @ enable_touch_events]"

definition webkit_command :: "host \<Rightarrow> string \<Rightarrow> string list" where
  "webkit_command h enable_touch_events =
    [''./Tools/Scripts/build-webkit'',
     ''--qt'',
     ''--cmakeargs='' @ [CHR 0x22]
        @ replace_chr (CHR 0x22) [CHR 0x5C, CHR 0x22] (join '' '' (cmakeArgs h enable_touch_events))
        @ [CHR 0x22],
     ''--no-geolocation'',
     ''--no-device-orientation'',
     ''--no-opengl'',
     ''--no-video'',
     ''--no-video-track'',
     ''--no-netscape-plugin-api'',
     ''--no-web-audio'',
     ''--no-fullscreen-api'',
     ''--no-legacy-web-audio'',
     ''--no-legacy-vendor-prefixes'',
     ''--no-web-replay'']"

text \<open>\<open>buildQtWebKit\<close>. The option \<open>skip_configure_qtwebkit\<close> is not read here, nor
  anywhere else in the script; \<open>webkit_qmake_args\<close> is not read either.\<close>

definition buildQtWebKit :: "host \<Rightarrow> unit action" where
  "buildQtWebKit h s =
     (if skip_qtwebkit (options s) then emit (Print ''Skipping build of Qt WebKit'') s
      else
        bindM (\<lambda>s. if git_clean_qtwebkit (options s)
                    then bindM (gitClean h ''src/qt/webkit'') (\<lambda>_. returnM ()) s
                    else returnM () s) (\<lambda>_.
        bindM (emit (Putenv ''SQLITE3SRCDIR'' (abspath h ''src/qt/qtbase/src/3rdparty/sqlite''))) (\<lambda>_.
        bindM (emit (Print ''configuring Qt WebKit, please wait...'')) (\<lambda>_ s.
          (let enable_touch_events = ''ON'';
               enable_touch_events = (if disable_touch_events (options s) then ''OFF''
                                      else enable_touch_events);
               command = webkit_command h enable_touch_events
           in
        bindM (emit (Print ''building Qt WebKit, please wait...'')) (\<lambda>_.
        (case shlex_split h (join '' '' command) of
           Inl e \<Rightarrow> raiseM e
         | Inr words \<Rightarrow>
        bindM (execute h (map Str words) ''src/qt/webkit'') (\<lambda>rc.
          if rc \<noteq> 0 then raiseM (RuntimeError ''Building Qt WebKit failed.'')
          else
        bindM (subprocess_call h
                 (join '' '' [''rm'', ''-rf'', abspath h ''src/qt/qtwebkit''])) (\<lambda>_ s.
        bindM (execute h (makeCommand s @ [Str ''install''])
                 ''src/qt/webkit/WebKitBuild/Release'') (\<lambda>_.
        bindM (subprocess_call h
                 (join '' '' [''cp'', abspath h ''src/qt/qtwebkit/lib/libQt5WebKit*'',
                              abspath h ''src/qt/qtbase/lib/''])) (\<lambda>_.
        subprocess_call h
                 (join '' '' [''cp'', abspath h ''src/qt/qtwebkit/mkspecs/modules/qt_lib_webkit*'',
                              abspath h ''src/qt/qtbase/mkspecs/modules/'']))) s)))) s)))) s)"

definition buildPhantomJS :: "host \<Rightarrow> unit action" where
  "buildPhantomJS h =
     bindM (emit (Print ''Configuring PhantomJS, please wait...'')) (\<lambda>_ s.
     bindM (qmake h ''.'' (phantomjs_qmake_args (options s))) (\<lambda>rc.
       if rc \<noteq> 0 then raiseM (RuntimeError ''Configuration of PhantomJS failed.'')
       else
     bindM (emit (Print ''Building PhantomJS, please wait...'')) (\<lambda>_.
     bindM (make h ''.'') (\<lambda>rc.
       if rc \<noteq> 0 then raiseM (RuntimeError ''Building PhantomJS failed.'')
       else returnM ()))) s)"

definition ensureSubmodulesAvailable :: "host \<Rightarrow> unit action" where
  "ensureSubmodulesAvailable h s =
     (if skip_git (options s) then returnM () s
      else
        bindM (execute h [Str ''git'', Str ''submodule'', Str ''init''] ''.'') (\<lambda>rc.
          if rc \<noteq> 0 then raiseM (RuntimeError ''Initialization of git submodules failed.'')
          else
        bindM (execute h [Str ''git'', Str ''submodule'', Str ''update''] ''.'') (\<lambda>rc.
          if rc \<noteq> 0 then raiseM (RuntimeError ''Initial update of git submodules failed.'')
          else returnM ())) s)"

definition run :: "host \<Rightarrow> unit action" where
  "run h =
     bindM (ensureSubmodulesAvailable h) (\<lambda>_.
     bindM (buildQtBase h) (\<lambda>_.
     bindM (buildQtWebKit h) (\<lambda>_.
     buildPhantomJS h)))"

section \<open>Argument parsing and the entry point\<close>

text \<open>\<open>parseArguments\<close>, from the namespace that \<open>parser.parse_args()\<close> returned.\<close>

definition parseArguments :: "namespace \<Rightarrow> error + namespace" where
  "parseArguments parsed =
     (if debug parsed \<and> release parsed
      then Inl (RuntimeError ''Cannot build with both debug and release mode enabled.'')
      else Inr parsed)"

definition warning_text :: string where
  "warning_text =
     ''----------------------------------------'' @ [CHR 0x0A] @
     ''               WARNING'' @ [CHR 0x0A] @
     ''----------------------------------------'' @ [CHR 0x0A] @
     ''Building PhantomJS from source takes a very long time, anywhere from 30 minutes'' @ [CHR 0x0A] @
     ''to several hours (depending on the machine configuration). It is recommended to'' @ [CHR 0x0A] @
     ''use the premade binary packages on supported operating systems.'' @ [CHR 0x0A] @
     ''For details, please go the the web site: http://phantomjs.org/download.html.'' @ [CHR 0x0A]"

text \<open>The confirmation loop over the lines of standard input; at the end of the input
  \<open>readline()\<close> returns the empty string, which is accepted like \<open>y\<close>. The result is
  \<open>False\<close> when the build was cancelled.\<close>

fun confirm_loop :: "host \<Rightarrow> string list \<Rightarrow> event list \<Rightarrow> bool \<times> event list" where
  "confirm_loop h [] evs = (True, evs @ [Write ''Do you want to continue (Y/n)? ''])"
| "confirm_loop h (line # rest) evs =
     (let evs = evs @ [Write ''Do you want to continue (Y/n)? ''];
          answer = lower h (strip h line)
      in if answer = ''n'' then (False, evs @ [Print ''Cancelling PhantomJS build.''])
         else if answer = ''y'' \<or> answer = [] then (True, evs)
         else confirm_loop h rest (evs @ [Print ''Invalid answer, try again.'']))"

text \<open>How the process ends: \<open>main\<close> returns (exit status 0), \<open>sys.exit(n)\<close>, or an
  exception that is not a \<open>RuntimeError\<close> leaves \<open>main\<close> uncaught.\<close>

datatype outcome = Returned | SysExit int | Uncaught error

text \<open>The handler \<open>except RuntimeError as error\<close> of \<open>main\<close>.\<close>

definition except_RuntimeError :: "error \<Rightarrow> event list \<Rightarrow> outcome \<times> event list" where
  "except_RuntimeError e evs =
     (case e of
        RuntimeError msg \<Rightarrow>
          (SysExit 1,
           evs @ [Stderr ([CHR 0x0A] @ ''ERROR: Failed to build PhantomJS! '' @ msg @ [CHR 0x0A])])
      | _ \<Rightarrow> (Uncaught e, evs))"

definition main :: "host \<Rightarrow> namespace \<Rightarrow> string list \<Rightarrow> filesys \<Rightarrow> outcome \<times> event list" where
  "main h parsed stdin f =
     (let evs = [Chdir (script_dir h)]
      in case parseArguments parsed of
           Inl e \<Rightarrow> except_RuntimeError e evs
         | Inr opts \<Rightarrow>
             (case (if \<not> confirm opts then confirm_loop h stdin (evs @ [Print warning_text])
                    else (True, evs)) of
                (False, evs) \<Rightarrow> (Returned, evs)
              | (True, evs) \<Rightarrow>
                  (case init h opts f evs of
                     Inl e \<Rightarrow> except_RuntimeError e evs
                   | Inr builder \<Rightarrow>
                       (case run h builder of
                          (Inl e, s) \<Rightarrow> except_RuntimeError e (out s)
                        | (Inr _, s) \<Rightarrow> (Returned, out s)))))"

section \<open>Example hosts and inputs\<close>

text \<open>Concrete hosts, file systems and command lines on which the theorems below are
  instantiated. The example host runs Python 3, resolves paths against the directory
  \<open>/w\<close> (dropping a trailing slash, as \<open>os.path.abspath\<close> does), joins paths as POSIX
  does, and every process it starts returns \<open>0\<close> and leaves the file system as it is.\<close>

definition example_abspath :: "string \<Rightarrow> string" where
  "example_abspath p =
     (if p = ''.'' then ''/w''
      else ''/w/'' @ rev (dropWhile (\<lambda>c. c = CHR ''/'') (rev p)))"

text \<open>\<open>shlex.split\<close> of the example host, in the POSIX mode that \<open>shlex.split\<close> uses:
  words are separated by blanks; single quotes keep everything; inside double quotes a
  backslash escapes only a double quote or a backslash; elsewhere a backslash escapes
  the next character. The state is where the lexer stands, the word read so far, and
  whether a quote was seen in it (an empty word counts only if it was quoted).\<close>

datatype lex_state = Blank | Word | Quote char | Escape lex_state

fun shlex_words :: "lex_state \<Rightarrow> string \<Rightarrow> bool \<Rightarrow> string \<Rightarrow> error + string list" where
  "shlex_words (Quote q) tok quoted [] = Inl (ValueError ''No closing quotation'')"
| "shlex_words (Escape prev) tok quoted [] = Inl (ValueError ''No escaped character'')"
| "shlex_words st tok quoted [] = Inr (if tok \<noteq> [] \<or> quoted then [tok] else [])"
| "shlex_words Blank tok quoted (c # cs) =
     (if c \<in> set [CHR '' '', CHR 0x09, CHR 0x0D, CHR 0x0A] then shlex_words Blank [] False cs
      else if c = CHR 0x5C then shlex_words (Escape Word) [] False cs
      else if c = CHR 0x27 \<or> c = CHR 0x22 then shlex_words (Quote c) [] False cs
      else shlex_words Word [c] False cs)"
| "shlex_words Word tok quoted (c # cs) =
     (if c \<in> set [CHR '' '', CHR 0x09, CHR 0x0D, CHR 0x0A] then
        (case shlex_words Blank [] False cs of
           Inl e \<Rightarrow> Inl e
         | Inr ws \<Rightarrow> Inr (if tok \<noteq> [] \<or> quoted then tok # ws else ws))
      else if c = CHR 0x27 \<or> c = CHR 0x22 then shlex_words (Quote c) tok quoted cs
      else if c = CHR 0x5C then shlex_words (Escape Word) tok quoted cs
      else shlex_words Word (tok @ [c]) quoted cs)"
| "shlex_words (Quote q) tok quoted (c # cs) =
     (if c = q then shlex_words Word tok True cs
      else if c = CHR 0x5C \<and> q = CHR 0x22 then shlex_words (Escape (Quote q)) tok True cs
      else shlex_words (Quote q) (tok @ [c]) True cs)"
| "shlex_words (Escape prev) tok quoted (c # cs) =
     (case prev of
        Quote q \<Rightarrow>
          shlex_words prev ((if c \<noteq> CHR 0x5C \<and> c \<noteq> q then tok @ [CHR 0x5C] else tok) @ [c])
            quoted cs
      | _ \<Rightarrow> shlex_words Word (tok @ [c]) quoted cs)"

definition example_shlex_split :: "string \<Rightarrow> error + string list" where
  "example_shlex_split line = shlex_words Blank [] False line"

definition example_join :: "string \<Rightarrow> string \<Rightarrow> string" where
  "example_join a b =
     (case b of
        [] \<Rightarrow> (if a = [] \<or> last a = CHR ''/'' then a else a @ ''/'')
      | c # _ \<Rightarrow> if c = CHR ''/'' then b
                 else if a = [] \<or> last a = CHR ''/'' then a @ b
                 else a @ ''/'' @ b)"

definition linux_host :: host where
  "linux_host =
     \<lparr>python3 = True,
      system = ''Linux'',
      environ = [''PATH'' \<mapsto> ''/usr/bin:/bin''],
      cpu_count = 8,
      abspath = example_abspath,
      path_join = example_join,
      pathsep = CHR '':'',
      shlex_split = example_shlex_split,
      root = ''/w'',
      script_dir = ''/w'',
      popen = (\<lambda>command wd f. (Inr 0, f)),
      call = (\<lambda>line f. f)\<rparr>"

definition darwin_host :: host where
  "darwin_host = linux_host\<lparr>system := ''Darwin''\<rparr>"

definition darwin_override_host :: host where
  "darwin_override_host =
     linux_host\<lparr>system := ''Darwin'',
                environ := [''PATH'' \<mapsto> ''/usr/bin:/bin'', ''OPENSSL'' \<mapsto> ''/opt/ssl'']\<rparr>"

definition no_path_host :: host where
  "no_path_host = linux_host\<lparr>environ := Map.empty\<rparr>"

text \<open>A source tree with its \<open>.git\<close> directory and nothing built yet; the same tree
  unpacked from a tarball (no \<open>.git\<close>); and a tree on a machine that has OpenSSL from
  both package managers.\<close>

definition git_tree :: filesys where
  "git_tree =
     \<lparr>isfile = (\<lambda>p. False), access_X_OK = (\<lambda>p. False),
      path_exists = (\<lambda>p. p = ''.git''), isdir = (\<lambda>p. p = ''.git'')\<rparr>"

definition tarball_tree :: filesys where
  "tarball_tree =
     \<lparr>isfile = (\<lambda>p. False), access_X_OK = (\<lambda>p. False),
      path_exists = (\<lambda>p. False), isdir = (\<lambda>p. False)\<rparr>"

definition both_openssl_tree :: filesys where
  "both_openssl_tree =
     \<lparr>isfile = (\<lambda>p. False), access_X_OK = (\<lambda>p. False),
      path_exists = (\<lambda>p. p \<in> set [''.git'', ''/usr/local/opt/openssl/include/openssl/opensslv.h'',
                                     ''/opt/local/include/openssl/opensslv.h'']),
      isdir = (\<lambda>p. p = ''.git'')\<rparr>"

text \<open>The namespace of a command line without options.\<close>

definition no_args :: namespace where
  "no_args =
     \<lparr>release = False, debug = False, jobs = None, confirm = False, dry_run = False,
      silent = False, qmake_args = None, webkit_qmake_args = None,
      phantomjs_qmake_args = None, qt_config = None, git_clean_qtbase = False,
      git_clean_qtwebkit = False, skip_qtbase = False, skip_configure_qtbase = False,
      skip_qtwebkit = False, skip_configure_qtwebkit = False, skip_git = False,
      disable_touch_events = False\<rparr>"

text \<open>A builder state over the given namespace, with the make command \<open>make -j 8\<close>.\<close>

definition example_state :: "namespace \<Rightarrow> filesys \<Rightarrow> state" where
  "example_state opts f =
     \<lparr>options = opts, makeCommand = [Str ''make'', Str ''-j'', Num 8], fs = f, out = []\<rparr>"

section \<open>Reading a list of effects\<close>

text \<open>The processes really started (\<open>spawns\<close>), the command lines printed by
  \<open>execute\<close> (\<open>echoes\<close>), and the programs named by those lines.\<close>

fun is_spawn :: "event \<Rightarrow> bool" where
  "is_spawn (Popen command wd) = True"
| "is_spawn (Call line) = True"
| "is_spawn _ = False"

fun is_echo :: "event \<Rightarrow> bool" where
  "is_echo (Executing wd command) = True"
| "is_echo _ = False"

definition spawns :: "event list \<Rightarrow> event list" where
  "spawns evs = filter is_spawn evs"

definition echoes :: "event list \<Rightarrow> event list" where
  "echoes evs = filter is_echo evs"

fun program_of :: "event \<Rightarrow> string list" where
  "program_of (Executing wd (p # rest)) = [p]"
| "program_of _ = []"

definition programs :: "event list \<Rightarrow> string list" where
  "programs evs = concat (map program_of evs)"

text \<open>The values of a repeatable option: none when the option is absent.\<close>

fun given :: "string list option \<Rightarrow> string list" where
  "given None = []"
| "given (Some vs) = vs"

text \<open>The tokens that \<open>--qt-config\<close> contributes: its values joined without a
  separator and split at every space.\<close>

definition qt_config_tokens :: "namespace \<Rightarrow> string list" where
  "qt_config_tokens opts =
     (if given (qt_config opts) = [] then []
      else split_chr CHR '' '' (concat (given (qt_config opts))))"

text \<open>The entries of \<open>openssl_search_paths\<close> whose marker header exists, in the order
  of the list.\<close>

definition found_paths :: "filesys \<Rightarrow> search_path list" where
  "found_paths f = filter (\<lambda>search_path. path_exists f (header search_path)) openssl_search_paths"

text \<open>A host whose environment already carries a job count for make.\<close>

definition makeflags_host :: host where
  "makeflags_host =
     linux_host\<lparr>environ := [''PATH'' \<mapsto> ''/usr/bin:/bin'', ''MAKEFLAGS'' \<mapsto> ''-j4'']\<rparr>"

section \<open>Basic facts about the model\<close>

lemma bindM_returnM [simp]: "bindM (returnM x) k s = k x s"
  by (simp add: bindM_def returnM_def)

lemma bindM_raiseM [simp]: "bindM (raiseM e) k s = (Inl e, s)"
  by (simp add: bindM_def raiseM_def)

lemma bindM_emit [simp]: "bindM (emit e) k s = k () (s\<lparr>out := out s @ [e]\<rparr>)"
  by (simp add: bindM_def emit_def)

lemma bindM_subprocess_call [simp]:
  "bindM (subprocess_call h line) k s =
     k () (s\<lparr>out := out s @ [Call line], fs := call h line (fs s)\<rparr>)"
  by (simp add: bindM_def subprocess_call_def)

lemma bindM_E:
  assumes "bindM m k s = (r, s')"
  obtains (raised) e where "m s = (Inl e, s')" and "r = Inl e"
        | (returned) x s1 where "m s = (Inr x, s1)" and "k x s1 = (r, s')"
  using assms by (auto simp: bindM_def split: prod.splits sum.splits)

lemma returnM_eq [simp]: "(returnM x s = (r, s')) = (r = Inr x \<and> s' = s)"
  by (auto simp: returnM_def)

lemma raiseM_eq [simp]: "(raiseM e s = (r, s')) = (r = Inl e \<and> s' = s)"
  by (auto simp: raiseM_def)

lemma emit_eq [simp]: "(emit e s = (r, s')) = (r = Inr () \<and> s' = s\<lparr>out := out s @ [e]\<rparr>)"
  by (auto simp: emit_def)

lemma subprocess_call_eq [simp]:
  "(subprocess_call h line s = (r, s')) =
     (r = Inr () \<and> s' = s\<lparr>out := out s @ [Call line], fs := call h line (fs s)\<rparr>)"
  by (auto simp: subprocess_call_def)

lemmas example_defs =
  linux_host_def git_tree_def tarball_tree_def no_args_def example_state_def
  example_abspath_def example_join_def example_shlex_split_def

lemmas step_defs =
  run_def ensureSubmodulesAvailable_def buildQtBase_def buildQtWebKit_def buildPhantomJS_def
  configureQtBase_def configure_list_def platformQtConfigureOptions_def qmake_def make_def
  gitClean_def execute_def bindM_def returnM_def raiseM_def emit_def subprocess_call_def
  qmakePath_def qmake_command_def init_def getenv_def Let_def

subsection \<open>Splitting and searching\<close>

lemma split_chr_no_sep: "c \<notin> set xs \<Longrightarrow> split_chr c xs = [xs]"
  by (induction xs) auto

lemma which_loop_isExe: "which_loop h f program dirs = Some p \<Longrightarrow> isExe f p"
  by (induction dirs) (auto simp: Let_def split: if_splits)

text \<open>The loop over the search list visits every entry: it collects the flags of all
  entries whose header exists and prints a line for each of them.\<close>

lemma search_openssl_eq:
  "search_openssl sps (b, po) s =
     ((b \<or> filter (\<lambda>sp. path_exists (fs s) (header sp)) sps \<noteq> [],
       po @ concat (map flags (filter (\<lambda>sp. path_exists (fs s) (header sp)) sps))),
      s\<lparr>out := out s @ map (\<lambda>sp. Print (''Found OpenSSL installed via '' @ name sp))
                          (filter (\<lambda>sp. path_exists (fs s) (header sp)) sps)\<rparr>)"
  by (induction sps arbitrary: b po s) auto

lemma platformQtConfigureOptions_frame:
  "platformQtConfigureOptions h s = (r, s') \<Longrightarrow>
     options s' = options s \<and> makeCommand s' = makeCommand s \<and> fs s' = fs s"
  by (auto simp: platformQtConfigureOptions_def search_openssl_eq Let_def returnM_def raiseM_def
        split: if_splits)

text \<open>The shape of the configure command, whenever the platform options are found.\<close>

lemma configure_list_shape:
  assumes "platformQtConfigureOptions h s = (Inr plat, s')"
  shows "configure_list h s =
     (Inr (configure_prefix h @ plat @ qt_config_tokens (options s)
           @ [if debug (options s) then ''-debug'' else ''-release'']), s')"
proof -
  have o: "options s' = options s"
    using platformQtConfigureOptions_frame [OF assms] by simp
  show ?thesis
    using assms
    by (cases "qt_config (options s)")
       (simp_all add: configure_list_def bindM_def o qt_config_tokens_def returnM_def)
qed

text \<open>What \<open>execute\<close> does with a list of strings: it prints the list and, unless
  \<open>dry_run\<close> is set, starts exactly that list.\<close>

lemma map_str_Str: "map str (map Str xs) = xs"
  by (induction xs) auto

lemma map_str_comp_Str: "map (str \<circ> Str) xs = xs"
  by (induction xs) auto

lemma execute_out:
  "out (snd (execute h command wd s)) =
     out s @ Executing (abspath h wd) (map str command)
             # (if dry_run (options s) then [] else [Popen (map str command) (abspath h wd)])"
  by (auto simp: execute_def Let_def split: prod.splits)

text \<open>What \<open>configureQtBase\<close> hands to \<open>execute\<close>, whenever the platform options are
  found: the computed start, the platform options, the tokens of \<open>--qt-config\<close>, and
  then the build mode.\<close>

lemma configureQtBase_out:
  assumes "platformQtConfigureOptions h
             (s\<lparr>out := out s @ [Print ''configuring Qt Base, please wait...'']\<rparr>) = (Inr plat, s1)"
  shows "out (snd (configureQtBase h s)) =
     out s1 @ Executing (abspath h ''src/qt/qtbase'')
                (configure_prefix h @ plat @ qt_config_tokens (options s)
                 @ [if debug (options s) then ''-debug'' else ''-release''])
              # (if dry_run (options s) then []
                 else [Popen (configure_prefix h @ plat @ qt_config_tokens (options s)
                              @ [if debug (options s) then ''-debug'' else ''-release''])
                         (abspath h ''src/qt/qtbase'')])"
proof -
  let ?t = "s\<lparr>out := out s @ [Print ''configuring Qt Base, please wait...'']\<rparr>"
  let ?cmd = "configure_prefix h @ plat @ qt_config_tokens (options s)
                @ [if debug (options s) then ''-debug'' else ''-release'']"
  have o: "options s1 = options s"
    using platformQtConfigureOptions_frame [OF assms] by simp
  have c: "configure_list h ?t = (Inr ?cmd, s1)"
    using configure_list_shape [OF assms] by simp
  have e: "out (snd (execute h (map Str ?cmd) ''src/qt/qtbase'' s1)) =
      out s1 @ Executing (abspath h ''src/qt/qtbase'') ?cmd
               # (if dry_run (options s) then [] else [Popen ?cmd (abspath h ''src/qt/qtbase'')])"
    by (simp only: execute_out map_str_Str o)
  obtain r s2 where x: "execute h (map Str ?cmd) ''src/qt/qtbase'' s1 = (r, s2)"
    by (cases "execute h (map Str ?cmd) ''src/qt/qtbase'' s1")
  have cq: "configureQtBase h s =
          bindM (configure_list h) (\<lambda>configure.
          bindM (execute h (map Str configure) ''src/qt/qtbase'') (\<lambda>rc.
            if rc \<noteq> 0 then raiseM (RuntimeError ''Configuration of Qt Base failed.'')
            else returnM ())) ?t"
    by (simp add: configureQtBase_def)
  have "out (snd (configureQtBase h s)) = out s2"
  proof (cases r)
    case (Inl err)
    show ?thesis
      unfolding cq by (simp only: bindM_def c x Inl prod.case sum.case snd_conv)
  next
    case (Inr rc)
    show ?thesis
      unfolding cq
      by (simp only: bindM_def c x Inr prod.case sum.case)
         (simp add: returnM_def raiseM_def)
  qed
  with e x show ?thesis by simp
qed

lemma re_match_j_search: "re_match_j h xs \<Longrightarrow> re_search_j h xs"
  by (cases xs) auto

subsection \<open>No method writes the builder's fields\<close>

lemma execute_frame:
  "execute h command wd s = (r, s') \<Longrightarrow>
     options s' = options s \<and> makeCommand s' = makeCommand s"
  by (auto simp: execute_def Let_def split: if_splits prod.splits)

lemma gitClean_frame:
  "gitClean h path s = (r, s') \<Longrightarrow> options s' = options s \<and> makeCommand s' = makeCommand s"
  by (auto simp: gitClean_def dest: execute_frame split: if_splits)

lemma make_frame:
  "make h path s = (r, s') \<Longrightarrow> options s' = options s \<and> makeCommand s' = makeCommand s"
  by (auto simp: make_def dest: execute_frame)

lemma qmake_frame:
  "qmake h path extra s = (r, s') \<Longrightarrow>
     options s' = options s \<and> makeCommand s' = makeCommand s"
  by (auto simp: qmake_def Let_def dest: execute_frame split: if_splits)

lemma configure_list_frame:
  "configure_list h s = (r, s') \<Longrightarrow> options s' = options s \<and> makeCommand s' = makeCommand s"
  unfolding configure_list_def
  by (erule bindM_E) (auto simp: Let_def dest: platformQtConfigureOptions_frame)

lemma configureQtBase_frame:
  "configureQtBase h s = (r, s') \<Longrightarrow> options s' = options s \<and> makeCommand s' = makeCommand s"
  unfolding configureQtBase_def
  by (elim bindM_E)
     (auto dest!: configure_list_frame execute_frame split: if_splits)

lemma buildQtBase_frame:
  "buildQtBase h s = (r, s') \<Longrightarrow> options s' = options s \<and> makeCommand s' = makeCommand s"
  unfolding buildQtBase_def
  by (simp split: if_splits, elim bindM_E)
     (auto dest!: gitClean_frame configureQtBase_frame make_frame split: if_splits
           elim!: bindM_E)

lemma buildQtWebKit_frame:
  "buildQtWebKit h s = (r, s') \<Longrightarrow> options s' = options s \<and> makeCommand s' = makeCommand s"
  unfolding buildQtWebKit_def
  by (simp split: if_splits, elim bindM_E)
     (auto simp: Let_def dest!: gitClean_frame execute_frame split: if_splits sum.splits
           elim!: bindM_E)

lemma buildPhantomJS_frame:
  "buildPhantomJS h s = (r, s') \<Longrightarrow> options s' = options s \<and> makeCommand s' = makeCommand s"
  unfolding buildPhantomJS_def
  by (elim bindM_E)
     (auto dest!: qmake_frame make_frame split: if_splits elim!: bindM_E)

lemma ensureSubmodulesAvailable_frame:
  "ensureSubmodulesAvailable h s = (r, s') \<Longrightarrow>
     options s' = options s \<and> makeCommand s' = makeCommand s"
  unfolding ensureSubmodulesAvailable_def
  by (simp split: if_splits, elim bindM_E)
     (auto dest!: execute_frame split: if_splits elim!: bindM_E)

lemma run_frame:
  "run h s = (r, s') \<Longrightarrow> options s' = options s \<and> makeCommand s' = makeCommand s"
  unfolding run_def
  by (elim bindM_E)
     (auto dest!: ensureSubmodulesAvailable_frame buildQtBase_frame buildQtWebKit_frame
             buildPhantomJS_frame)

section \<open>The claims\<close>

subsection \<open>C1: both build modes at once\<close>

text \<open>
  C1. For every namespace in which both \<open>debug\<close> and \<open>release\<close> are set,
  \<open>parseArguments\<close> raises the configuration error, and the whole program then only
  changes its directory and writes the error to standard error: no command line is
  printed by \<open>execute\<close>, no process is started, and the exit status is \<open>1\<close>. This holds
  on every host, for every standard input and every file system.
\<close>

theorem C1_both_modes_rejected:
  assumes "debug parsed" and "release parsed"
  shows "parseArguments parsed =
           Inl (RuntimeError ''Cannot build with both debug and release mode enabled.'')
       \<and> main h parsed stdin f =
           (SysExit 1,
            [Chdir (script_dir h),
             Stderr ([CHR 0x0A] @ ''ERROR: Failed to build PhantomJS! ''
                     @ ''Cannot build with both debug and release mode enabled.'' @ [CHR 0x0A])])
       \<and> echoes (snd (main h parsed stdin f)) = []
       \<and> spawns (snd (main h parsed stdin f)) = []"
  using assms
  by (simp add: parseArguments_def main_def except_RuntimeError_def echoes_def spawns_def)

text \<open>The command line \<open>--debug --release\<close> on the example host.\<close>

theorem C1_both_modes_rejected_witness:
  "debug (no_args\<lparr>debug := True, release := True\<rparr>)
   \<and> release (no_args\<lparr>debug := True, release := True\<rparr>)
   \<and> main linux_host (no_args\<lparr>debug := True, release := True\<rparr>) [] git_tree =
       (SysExit 1,
        [Chdir ''/w'',
         Stderr ([CHR 0x0A] @ ''ERROR: Failed to build PhantomJS! ''
                 @ ''Cannot build with both debug and release mode enabled.'' @ [CHR 0x0A])])"
  using C1_both_modes_rejected [of "no_args\<lparr>debug := True, release := True\<rparr>" linux_host "[]" git_tree]
  by (simp add: linux_host_def)

subsection \<open>C6: the make command\<close>

text \<open>
  C6, as amended. On a platform other than Windows the constructor always succeeds, and
  its make command is \<open>make -j n\<close> when a job count \<open>n\<close> other than \<open>0\<close> was given.
  When no job count was given, or the count \<open>0\<close> (which Python's truth test treats
  like an absent one): if the value of \<open>MAKEFLAGS\<close> contains no match of
  \<open>-j\s*[0-9]+\<close> at all, the command is \<open>make -j\<close> with the number of CPU cores; if
  the value matches the pattern (as \<open>re.match\<close> does, at its start), the command is
  plain \<open>make\<close>. Nothing is said here about a value that contains the pattern only
  after its start.
\<close>

theorem C6_make_command:
  assumes "system h \<noteq> ''Windows''"
  shows "\<exists>s. init h opts f evs = Inr s
     \<and> (\<forall>n. jobs opts = Some n \<and> n \<noteq> 0 \<longrightarrow>
            makeCommand s = [Str ''make'', Str ''-j'', Num n])
     \<and> ((jobs opts = None \<or> jobs opts = Some 0) \<and> \<not> re_search_j h (getenv h ''MAKEFLAGS'' []) \<longrightarrow>
            makeCommand s = [Str ''make'', Str ''-j'', Num (cpu_count h)])
     \<and> ((jobs opts = None \<or> jobs opts = Some 0) \<and> re_match_j h (getenv h ''MAKEFLAGS'' []) \<longrightarrow>
            makeCommand s = [Str ''make''])"
  using assms by (auto simp: init_def Let_def dest: re_match_j_search split: option.splits)

text \<open>The three cases on the example host: \<open>-j 3\<close>; no job count and no
  \<open>MAKEFLAGS\<close>; no job count and \<open>MAKEFLAGS=-j4\<close>.\<close>

theorem C6_make_command_witness:
  "system linux_host \<noteq> ''Windows''
   \<and> (\<exists>s. init linux_host (no_args\<lparr>jobs := Some 3\<rparr>) git_tree [] = Inr s
          \<and> makeCommand s = [Str ''make'', Str ''-j'', Num 3])
   \<and> \<not> re_search_j linux_host (getenv linux_host ''MAKEFLAGS'' [])
   \<and> (\<exists>s. init linux_host no_args git_tree [] = Inr s
          \<and> makeCommand s = [Str ''make'', Str ''-j'', Num 8])
   \<and> re_match_j makeflags_host (getenv makeflags_host ''MAKEFLAGS'' [])
   \<and> (\<exists>s. init makeflags_host no_args git_tree [] = Inr s \<and> makeCommand s = [Str ''make''])"
proof -
  have lin: "system linux_host \<noteq> ''Windows''" and mf: "system makeflags_host \<noteq> ''Windows''"
    by (simp_all add: linux_host_def makeflags_host_def)
  have j: "jobs (no_args\<lparr>jobs := Some 3\<rparr>) = Some 3" and n: "jobs no_args = None"
    by (simp_all add: no_args_def)
  have m1: "\<not> re_search_j linux_host (getenv linux_host ''MAKEFLAGS'' [])"
    by (simp add: getenv_def linux_host_def)
  have m2: "re_match_j makeflags_host (getenv makeflags_host ''MAKEFLAGS'' [])"
    by (simp add: getenv_def linux_host_def makeflags_host_def isspace_def isdigit_def)
  have c: "cpu_count linux_host = 8"
    by (simp add: linux_host_def)
  from C6_make_command [OF lin, of "no_args\<lparr>jobs := Some 3\<rparr>" git_tree "[]"] j
  have a: "\<exists>s. init linux_host (no_args\<lparr>jobs := Some 3\<rparr>) git_tree [] = Inr s
          \<and> makeCommand s = [Str ''make'', Str ''-j'', Num 3]"
    by auto
  from C6_make_command [OF lin, of no_args git_tree "[]"] n m1 c
  have b: "\<exists>s. init linux_host no_args git_tree [] = Inr s
          \<and> makeCommand s = [Str ''make'', Str ''-j'', Num 8]"
    by auto
  from C6_make_command [OF mf, of no_args git_tree "[]"] n m2
  have d: "\<exists>s. init makeflags_host no_args git_tree [] = Inr s \<and> makeCommand s = [Str ''make'']"
    by auto
  from lin a m1 b m2 d show ?thesis by blast
qed

text \<open>The claim as first stated fails for the job count \<open>0\<close>: with \<open>-j 0\<close> on the
  example host (8 cores, no \<open>MAKEFLAGS\<close>) the command is \<open>make -j 8\<close>, not
  \<open>make -j 0\<close>.\<close>

theorem C6_job_count_zero_counterexample:
  "init linux_host (no_args\<lparr>jobs := Some 0\<rparr>) git_tree [] =
     Inr \<lparr>options = no_args\<lparr>jobs := Some 0\<rparr>,
          makeCommand = [Str ''make'', Str ''-j'', Num 8], fs = git_tree, out = []\<rparr>"
  by (simp add: init_def linux_host_def getenv_def git_tree_def)

subsection \<open>C8: looking up an executable\<close>

text \<open>
  C8, as amended. When \<open>PATH\<close> is set, or the program name itself is an executable
  file, \<open>which\<close> does not raise: it returns \<open>None\<close> or a path that is an existing
  executable file. When \<open>PATH\<close> is not set and the name itself is not an executable
  file, \<open>os.environ["PATH"]\<close> raises \<open>KeyError\<close>.
\<close>

theorem C8_which_total_with_PATH:
  "(environ h ''PATH'' \<noteq> None \<or> isExe f program \<longrightarrow>
      which h f program = Inr None
      \<or> (\<exists>p. which h f program = Inr (Some p) \<and> isExe f p))
   \<and> (environ h ''PATH'' = None \<and> \<not> isExe f program \<longrightarrow>
      which h f program = Inl (KeyError ''PATH''))"
proof (intro conjI impI)
  assume given_path: "environ h ''PATH'' \<noteq> None \<or> isExe f program"
  show "which h f program = Inr None \<or> (\<exists>p. which h f program = Inr (Some p) \<and> isExe f p)"
  proof (cases "isExe f program")
    case True
    then show ?thesis by (simp add: which_def)
  next
    case False
    with given_path obtain v where v: "environ h ''PATH'' = Some v" by auto
    show ?thesis
    proof (cases "which_loop h f program (split_chr (pathsep h) v)")
      case None
      with False v show ?thesis by (simp add: which_def)
    next
      case (Some p)
      with False v which_loop_isExe [OF Some] show ?thesis by (simp add: which_def)
    qed
  qed
next
  assume "environ h ''PATH'' = None \<and> \<not> isExe f program"
  then show "which h f program = Inl (KeyError ''PATH'')" by (simp add: which_def)
qed

text \<open>With \<open>PATH\<close> set and nothing installed the lookup answers \<open>None\<close>; without
  \<open>PATH\<close> it raises.\<close>

theorem C8_which_total_with_PATH_witness:
  "environ linux_host ''PATH'' \<noteq> None
   \<and> which linux_host tarball_tree ''jom.exe'' = Inr None
   \<and> environ no_path_host ''PATH'' = None \<and> \<not> isExe git_tree ''make''
   \<and> which no_path_host git_tree ''make'' = Inl (KeyError ''PATH'')"
  using C8_which_total_with_PATH [of linux_host tarball_tree "''jom.exe''"]
        C8_which_total_with_PATH [of no_path_host git_tree "''make''"]
  by (simp add: linux_host_def no_path_host_def tarball_tree_def git_tree_def isExe_def which_def
        strip_chars_def)

text \<open>The claim as first stated fails in an environment without \<open>PATH\<close>.\<close>

theorem C8_no_PATH_counterexample:
  "which no_path_host tarball_tree ''jom.exe'' = Inl (KeyError ''PATH'')"
  by (simp add: which_def no_path_host_def linux_host_def tarball_tree_def isExe_def)

subsection \<open>C7: searching for OpenSSL on Darwin\<close>

text \<open>
  C7, as amended. On Darwin with \<open>OPENSSL\<close> unset or empty, every entry of the search
  list is probed, in order, and the loop does not stop at the first hit: the include
  and library flags of every location whose marker header exists are added, in the
  order of the list (so the flags of both locations when both exist), with one line
  printed for each. The fatal configuration error is raised exactly when no location's
  marker header exists.
\<close>

theorem C7_openssl_search:
  assumes "system h = ''Darwin''" and "getenv h ''OPENSSL'' [] = []"
  shows "platformQtConfigureOptions h s =
     (if found_paths (fs s) = [] then (Inl (RuntimeError ''Could not find OpenSSL''), s)
      else (Inr (unix_platform_options @ (if silent (options s) then [''-silent''] else [])
                 @ [''-no-pkg-config''] @ concat (map flags (found_paths (fs s)))),
            s\<lparr>out := out s @ map (\<lambda>search_path. Print (''Found OpenSSL installed via '' @ name search_path))
                                (found_paths (fs s))\<rparr>))"
  using assms
  by (simp add: platformQtConfigureOptions_def search_openssl_eq found_paths_def
        returnM_def raiseM_def)

text \<open>A Darwin host without OpenSSL, and one with both installations and \<open>--silent\<close>.\<close>

theorem C7_openssl_search_witness:
  "system darwin_host = ''Darwin'' \<and> getenv darwin_host ''OPENSSL'' [] = []
   \<and> platformQtConfigureOptions darwin_host (example_state no_args git_tree) =
       (Inl (RuntimeError ''Could not find OpenSSL''), example_state no_args git_tree)
   \<and> fst (platformQtConfigureOptions darwin_host
            (example_state (no_args\<lparr>silent := True\<rparr>) both_openssl_tree)) =
       Inr (unix_platform_options @
            [''-silent'', ''-no-pkg-config'',
             ''-I/usr/local/opt/openssl/include'', ''-L/usr/local/opt/openssl/lib'',
             ''-I/opt/local/include'', ''-L/opt/local/lib''])"
proof -
  have d: "system darwin_host = ''Darwin''" and e: "getenv darwin_host ''OPENSSL'' [] = []"
    by (simp_all add: darwin_host_def linux_host_def getenv_def)
  have f1: "found_paths (fs (example_state no_args git_tree)) = []"
    by (simp add: found_paths_def example_state_def git_tree_def openssl_search_paths_def)
  have f2: "found_paths (fs (example_state (no_args\<lparr>silent := True\<rparr>) both_openssl_tree)) =
              openssl_search_paths"
    by (simp add: found_paths_def example_state_def both_openssl_tree_def openssl_search_paths_def)
  have s: "silent (options (example_state (no_args\<lparr>silent := True\<rparr>) both_openssl_tree))"
    by (simp add: example_state_def)
  show ?thesis
    using d e C7_openssl_search [OF d e, of "example_state no_args git_tree"]
      C7_openssl_search [OF d e, of "example_state (no_args\<lparr>silent := True\<rparr>) both_openssl_tree"]
    by (simp add: f1 f2 s) (simp add: openssl_search_paths_def)
qed

text \<open>The claim as first stated fails when both marker headers exist: the flags of
  both locations are in the result.\<close>

theorem C7_both_locations_counterexample:
  "fst (platformQtConfigureOptions darwin_host (example_state no_args both_openssl_tree)) =
     Inr (unix_platform_options @
          [''-no-pkg-config'',
           ''-I/usr/local/opt/openssl/include'', ''-L/usr/local/opt/openssl/lib'',
           ''-I/opt/local/include'', ''-L/opt/local/lib''])"
  by (simp add: platformQtConfigureOptions_def darwin_host_def linux_host_def getenv_def
        example_state_def no_args_def both_openssl_tree_def openssl_search_paths_def returnM_def)

subsection \<open>C5: the OpenSSL override on Darwin\<close>

text \<open>
  C5 does not hold of the code. On the Darwin example host with \<open>OPENSSL=/opt/ssl\<close>
  and no header under that path, the branch of the override means to raise the
  configuration error of line 245, but the test before it, \<open>if not openssl_found\<close>,
  reads a local variable that this branch has not assigned. What is raised is an
  \<open>UnboundLocalError\<close> about \<open>openssl_found\<close>; it does not name the path, it is not a
  \<open>RuntimeError\<close>, and \<open>main\<close> does not catch it. The search list is not consulted.
\<close>

theorem C5_override_raises_unbound_local:
  "platformQtConfigureOptions darwin_override_host (example_state no_args git_tree) =
     (Inl (UnboundLocalError ''openssl_found''), example_state no_args git_tree)
   \<and> fst (main darwin_override_host (no_args\<lparr>confirm := True\<rparr>) [] git_tree) =
       Uncaught (UnboundLocalError ''openssl_found'')"
  by (simp add: main_def parseArguments_def step_defs example_defs darwin_override_host_def
        except_RuntimeError_def)

subsection \<open>C4: where the user's flags stand\<close>

text \<open>
  C4, as amended. The command that \<open>qmake\<close> hands to \<open>execute\<close> (whenever it gets that
  far: the qmake executable exists or \<open>dry_run\<close> is set) consists of the path of the
  qmake executable, its only computed element, followed by all user-supplied flags: the
  values of \<open>--qmake-args\<close> first, then those of the stage; the last stage passes the
  values of \<open>--phantomjs-qmake-args\<close>. The command that \<open>configureQtBase\<close> hands to
  \<open>execute\<close> (whenever the platform options are found) holds the tokens of
  \<open>--qt-config\<close> after every computed flag except the build mode: \<open>-debug\<close> or
  \<open>-release\<close> is appended after them and is the last argument. In both cases the
  list is printed and, unless \<open>dry_run\<close> is set, started as it is.
\<close>

theorem C4_user_flags_position:
  "(platformQtConfigureOptions h
        (s\<lparr>out := out s @ [Print ''configuring Qt Base, please wait...'']\<rparr>) = (Inr plat, s1) \<longrightarrow>
      out (snd (configureQtBase h s)) =
        out s1 @ Executing (abspath h ''src/qt/qtbase'')
                   (configure_prefix h @ plat @ qt_config_tokens (options s)
                    @ [if debug (options s) then ''-debug'' else ''-release''])
                 # (if dry_run (options s) then []
                    else [Popen (configure_prefix h @ plat @ qt_config_tokens (options s)
                                 @ [if debug (options s) then ''-debug'' else ''-release''])
                            (abspath h ''src/qt/qtbase'')]))
   \<and> (isExe (fs s) (qmakePath h) \<or> dry_run (options s) \<longrightarrow>
      out (snd (qmake h path extra s)) =
        out s @ Executing (abspath h path)
                  ([qmakePath h] @ given (qmake_args (options s)) @ given extra)
                # (if dry_run (options s) then []
                   else [Popen ([qmakePath h] @ given (qmake_args (options s)) @ given extra)
                           (abspath h path)]))
   \<and> (isExe (fs s) (qmakePath h) \<or> dry_run (options s) \<longrightarrow>
      take (Suc (Suc (length (out s)))) (out (snd (buildPhantomJS h s))) =
        out s @ [Print ''Configuring PhantomJS, please wait...'',
                 Executing (abspath h ''.'')
                   ([qmakePath h] @ given (qmake_args (options s))
                    @ given (phantomjs_qmake_args (options s)))])"
proof (intro conjI impI)
  assume "platformQtConfigureOptions h
        (s\<lparr>out := out s @ [Print ''configuring Qt Base, please wait...'']\<rparr>) = (Inr plat, s1)"
  then show "out (snd (configureQtBase h s)) =
        out s1 @ Executing (abspath h ''src/qt/qtbase'')
                   (configure_prefix h @ plat @ qt_config_tokens (options s)
                    @ [if debug (options s) then ''-debug'' else ''-release''])
                 # (if dry_run (options s) then []
                    else [Popen (configure_prefix h @ plat @ qt_config_tokens (options s)
                                 @ [if debug (options s) then ''-debug'' else ''-release''])
                            (abspath h ''src/qt/qtbase'')])"
    by (rule configureQtBase_out)
next
  assume ok: "isExe (fs s) (qmakePath h) \<or> dry_run (options s)"
  have c: "qmake_command h (options s) extra =
             [qmakePath h] @ given (qmake_args (options s)) @ given extra"
    by (cases "qmake_args (options s)"; cases extra) (simp_all add: qmake_command_def Let_def)
  have q: "qmake h path extra s = execute h (map Str (qmake_command h (options s) extra)) path s"
    using ok by (auto simp: qmake_def Let_def)
  show "out (snd (qmake h path extra s)) =
        out s @ Executing (abspath h path)
                  ([qmakePath h] @ given (qmake_args (options s)) @ given extra)
                # (if dry_run (options s) then []
                   else [Popen ([qmakePath h] @ given (qmake_args (options s)) @ given extra)
                           (abspath h path)])"
    by (simp only: q execute_out map_str_Str c)
next
  assume ok: "isExe (fs s) (qmakePath h) \<or> dry_run (options s)"
  let ?t = "s\<lparr>out := out s @ [Print ''Configuring PhantomJS, please wait...'']\<rparr>"
  let ?cmd = "[qmakePath h] @ given (qmake_args (options s))
                @ given (phantomjs_qmake_args (options s))"
  have c: "qmake_command h (options s) (phantomjs_qmake_args (options s)) = ?cmd"
    by (cases "qmake_args (options s)"; cases "phantomjs_qmake_args (options s)")
       (simp_all add: qmake_command_def Let_def)
  have q: "qmake h ''.'' (phantomjs_qmake_args (options s)) ?t =
             execute h (map Str ?cmd) ''.'' ?t"
    using ok c by (auto simp: qmake_def Let_def)
  show "take (Suc (Suc (length (out s)))) (out (snd (buildPhantomJS h s))) =
        out s @ [Print ''Configuring PhantomJS, please wait...'',
                 Executing (abspath h ''.'') ?cmd]"
    by (auto simp: buildPhantomJS_def q bindM_def execute_def make_def Let_def map_str_Str
          map_str_comp_Str returnM_def raiseM_def split: prod.splits sum.splits)
qed

text \<open>\<open>--qt-config "-x -y"\<close> in a dry run on the example host, and a dry-run qmake call
  with flags from both options.\<close>

theorem C4_user_flags_position_witness:
  "platformQtConfigureOptions linux_host
      (example_state (no_args\<lparr>qt_config := Some [''-x -y''], dry_run := True,
                              qmake_args := Some [''CONFIG+=a'']\<rparr>) git_tree
         \<lparr>out := [Print ''configuring Qt Base, please wait...'']\<rparr>) =
     (Inr (unix_platform_options @ [''-fontconfig'', ''-icu'']),
      example_state (no_args\<lparr>qt_config := Some [''-x -y''], dry_run := True,
                              qmake_args := Some [''CONFIG+=a'']\<rparr>) git_tree
         \<lparr>out := [Print ''configuring Qt Base, please wait...'']\<rparr>)
   \<and> out (snd (configureQtBase linux_host
        (example_state (no_args\<lparr>qt_config := Some [''-x -y''], dry_run := True,
                                qmake_args := Some [''CONFIG+=a'']\<rparr>) git_tree))) =
     [Print ''configuring Qt Base, please wait...'',
      Executing ''/w/src/qt/qtbase''
        (configure_prefix linux_host @ unix_platform_options
         @ [''-fontconfig'', ''-icu'', ''-x'', ''-y'', ''-release''])]
   \<and> out (snd (qmake linux_host ''.'' (Some [''CONFIG+=b''])
        (example_state (no_args\<lparr>qt_config := Some [''-x -y''], dry_run := True,
                                qmake_args := Some [''CONFIG+=a'']\<rparr>) git_tree))) =
     [Executing ''/w'' [''/w/src/qt/qtbase/bin/qmake'', ''CONFIG+=a'', ''CONFIG+=b'']]"
proof -
  let ?o = "no_args\<lparr>qt_config := Some [''-x -y''], dry_run := True,
                     qmake_args := Some [''CONFIG+=a'']\<rparr>"
  let ?s = "example_state ?o git_tree"
  let ?t = "?s\<lparr>out := [Print ''configuring Qt Base, please wait...'']\<rparr>"
  let ?plat = "unix_platform_options @ [''-fontconfig'', ''-icu'']"
  have e: "?s\<lparr>out := out ?s @ [Print ''configuring Qt Base, please wait...'']\<rparr> = ?t"
    by (simp add: example_state_def)
  have p0: "platformQtConfigureOptions linux_host ?t = (Inr ?plat, ?t)"
    by (simp add: platformQtConfigureOptions_def linux_host_def example_state_def no_args_def
          returnM_def)
  have p: "platformQtConfigureOptions linux_host
             (?s\<lparr>out := out ?s @ [Print ''configuring Qt Base, please wait...'']\<rparr>) =
             (Inr ?plat, ?t)"
    unfolding e by (rule p0)
  have t: "qt_config_tokens (options ?s) = [''-x'', ''-y'']"
    by (simp add: qt_config_tokens_def example_state_def)
  have d: "\<not> debug (options ?s)" and n: "dry_run (options ?s)"
    and g: "given (qmake_args (options ?s)) = [''CONFIG+=a'']"
    and o: "out ?s = []" "out ?t = [Print ''configuring Qt Base, please wait...'']"
    by (simp_all add: example_state_def no_args_def)
  have q: "qmakePath linux_host = ''/w/src/qt/qtbase/bin/qmake''"
    and a: "abspath linux_host ''src/qt/qtbase'' = ''/w/src/qt/qtbase''"
      "abspath linux_host ''.'' = ''/w''"
    by (simp_all add: qmakePath_def linux_host_def example_abspath_def)
  note T = C4_user_flags_position [of linux_host ?s ?plat ?t "''.''" "Some [''CONFIG+=b'']"]
  from T p have "out (snd (configureQtBase linux_host ?s)) =
        out ?t @ Executing (abspath linux_host ''src/qt/qtbase'')
                   (configure_prefix linux_host @ ?plat @ qt_config_tokens (options ?s)
                    @ [if debug (options ?s) then ''-debug'' else ''-release''])
                 # (if dry_run (options ?s) then []
                    else [Popen (configure_prefix linux_host @ ?plat @ qt_config_tokens (options ?s)
                                 @ [if debug (options ?s) then ''-debug'' else ''-release''])
                            (abspath linux_host ''src/qt/qtbase'')])"
    by blast
  then have g1: "out (snd (configureQtBase linux_host ?s)) =
     [Print ''configuring Qt Base, please wait...'',
      Executing ''/w/src/qt/qtbase''
        (configure_prefix linux_host @ unix_platform_options
         @ [''-fontconfig'', ''-icu'', ''-x'', ''-y'', ''-release''])]"
    by (simp add: t d n o a)
  from T n have "out (snd (qmake linux_host ''.'' (Some [''CONFIG+=b'']) ?s)) =
        out ?s @ Executing (abspath linux_host ''.'')
                  ([qmakePath linux_host] @ given (qmake_args (options ?s))
                   @ given (Some [''CONFIG+=b'']))
                # (if dry_run (options ?s) then []
                   else [Popen ([qmakePath linux_host] @ given (qmake_args (options ?s))
                                @ given (Some [''CONFIG+=b'']))
                           (abspath linux_host ''.'')])"
    by blast
  then have g2: "out (snd (qmake linux_host ''.'' (Some [''CONFIG+=b'']) ?s)) =
     [Executing ''/w'' [''/w/src/qt/qtbase/bin/qmake'', ''CONFIG+=a'', ''CONFIG+=b'']]"
    by (simp add: g n o a q)
  from p0 g1 g2 show ?thesis by blast
qed

text \<open>The claim as first stated fails for the configure command: with
  \<open>--qt-config -x\<close> in a dry run, the list that \<open>configureQtBase\<close> prints ends with the
  computed flag \<open>-release\<close>, after the user's \<open>-x\<close>.\<close>

theorem C4_mode_flag_last_counterexample:
  "out (snd (configureQtBase linux_host
      (example_state (no_args\<lparr>qt_config := Some [''-x''], dry_run := True\<rparr>) git_tree))) =
     [Print ''configuring Qt Base, please wait...'',
      Executing ''/w/src/qt/qtbase''
        (configure_prefix linux_host @ unix_platform_options
         @ [''-fontconfig'', ''-icu'', ''-x'', ''-release''])]"
  by (simp add: step_defs example_defs map_str_Str map_str_comp_Str)

subsection \<open>C10: repeated \<open>--qt-config\<close>\<close>

text \<open>
  C10. When \<open>--qt-config\<close> is given twice, with the values \<open>a\<close> and \<open>b\<close>, neither of
  which contains a space, the two values are joined without a separator before the
  split at spaces. So the command that \<open>configureQtBase\<close> hands to \<open>execute\<close>, which
  prints it and (unless \<open>dry_run\<close> is set) starts it, holds between the computed flags
  and the build mode the single token \<open>a @ b\<close> instead of the two tokens \<open>a\<close> and
  \<open>b\<close>. This holds whenever the platform options are found, that is, whenever
  configure is invoked at all.
\<close>

theorem C10_qt_config_values_merged:
  assumes "qt_config (options s) = Some [a, b]"
    and "CHR '' '' \<notin> set a" and "CHR '' '' \<notin> set b"
    and "platformQtConfigureOptions h
           (s\<lparr>out := out s @ [Print ''configuring Qt Base, please wait...'']\<rparr>) = (Inr plat, s1)"
  shows "out (snd (configureQtBase h s)) =
     out s1 @ Executing (abspath h ''src/qt/qtbase'')
                (configure_prefix h @ plat @ [a @ b]
                 @ [if debug (options s) then ''-debug'' else ''-release''])
              # (if dry_run (options s) then []
                 else [Popen (configure_prefix h @ plat @ [a @ b]
                              @ [if debug (options s) then ''-debug'' else ''-release''])
                         (abspath h ''src/qt/qtbase'')])"
proof -
  have "qt_config_tokens (options s) = [a @ b]"
    using assms(1-3) by (simp add: qt_config_tokens_def split_chr_no_sep)
  with configureQtBase_out [OF assms(4)] show ?thesis by simp
qed

text \<open>\<open>--qt-config=-no-gui --qt-config=-v\<close> reaches configure as \<open>-no-gui-v\<close>.\<close>

theorem C10_qt_config_values_merged_witness:
  "qt_config (options (example_state (no_args\<lparr>qt_config := Some [''-no-gui'', ''-v'']\<rparr>) git_tree))
     = Some [''-no-gui'', ''-v'']
   \<and> CHR '' '' \<notin> set ''-no-gui'' \<and> CHR '' '' \<notin> set ''-v''
   \<and> out (snd (configureQtBase linux_host
        (example_state (no_args\<lparr>qt_config := Some [''-no-gui'', ''-v'']\<rparr>) git_tree))) =
     [Print ''configuring Qt Base, please wait...'',
      Executing ''/w/src/qt/qtbase''
        (configure_prefix linux_host @ unix_platform_options
         @ [''-fontconfig'', ''-icu'', ''-no-gui-v'', ''-release'']),
      Popen (configure_prefix linux_host @ unix_platform_options
             @ [''-fontconfig'', ''-icu'', ''-no-gui-v'', ''-release''])
        ''/w/src/qt/qtbase'']"
proof -
  let ?s = "example_state (no_args\<lparr>qt_config := Some [''-no-gui'', ''-v'']\<rparr>) git_tree"
  let ?t = "?s\<lparr>out := [Print ''configuring Qt Base, please wait...'']\<rparr>"
  have e: "?s\<lparr>out := out ?s @ [Print ''configuring Qt Base, please wait...'']\<rparr> = ?t"
    by (simp add: example_state_def)
  have p: "platformQtConfigureOptions linux_host
             (?s\<lparr>out := out ?s @ [Print ''configuring Qt Base, please wait...'']\<rparr>) =
             (Inr (unix_platform_options @ [''-fontconfig'', ''-icu'']), ?t)"
    unfolding e
    by (simp add: platformQtConfigureOptions_def linux_host_def example_state_def no_args_def
          returnM_def)
  have c: "qt_config (options ?s) = Some [''-no-gui'', ''-v'']"
    by (simp add: example_state_def)
  have a: "CHR '' '' \<notin> set ''-no-gui''" and b: "CHR '' '' \<notin> set ''-v''"
    by simp_all
  have d: "\<not> debug (options ?s)" "\<not> dry_run (options ?s)"
    and o: "out ?t = [Print ''configuring Qt Base, please wait...'']"
    by (simp_all add: example_state_def no_args_def)
  have w: "abspath linux_host ''src/qt/qtbase'' = ''/w/src/qt/qtbase''"
    by (simp add: linux_host_def example_abspath_def)
  from C10_qt_config_values_merged [OF c a b p]
  have "out (snd (configureQtBase linux_host ?s)) =
     [Print ''configuring Qt Base, please wait...'',
      Executing ''/w/src/qt/qtbase''
        (configure_prefix linux_host @ unix_platform_options
         @ [''-fontconfig'', ''-icu'', ''-no-gui-v'', ''-release'']),
      Popen (configure_prefix linux_host @ unix_platform_options
             @ [''-fontconfig'', ''-icu'', ''-no-gui-v'', ''-release''])
        ''/w/src/qt/qtbase'']"
    by (simp add: d o w)
  with c a b show ?thesis by blast
qed

subsection \<open>C9: the options after construction\<close>

text \<open>
  C9, as amended. The constructor of the builder stores the parsed options with one
  possible change: it sets \<open>skip_git\<close> when the working tree has no \<open>.git\<close> directory;
  every other field, and \<open>skip_git\<close> when \<open>.git\<close> exists, keeps the value it had when
  option parsing completed. After construction no operation modifies any field: a
  whole run, and each of its four stages, whether it ends normally or with an
  exception, leaves the options and the make command of the builder as they were.
\<close>

theorem C9_options_after_construction:
  "(init h opts f evs = Inr s \<longrightarrow>
      options s = (if isdir f ''.git'' then opts else opts\<lparr>skip_git := True\<rparr>))
   \<and> (run h s = (r, s') \<longrightarrow> options s' = options s \<and> makeCommand s' = makeCommand s)
   \<and> (ensureSubmodulesAvailable h s = (r, s') \<longrightarrow>
        options s' = options s \<and> makeCommand s' = makeCommand s)
   \<and> (buildQtBase h s = (r, s') \<longrightarrow> options s' = options s \<and> makeCommand s' = makeCommand s)
   \<and> (buildQtWebKit h s = (r, s') \<longrightarrow> options s' = options s \<and> makeCommand s' = makeCommand s)
   \<and> (buildPhantomJS h s = (r, s') \<longrightarrow> options s' = options s \<and> makeCommand s' = makeCommand s)"
proof -
  have "init h opts f evs = Inr s \<longrightarrow>
      options s = (if isdir f ''.git'' then opts else opts\<lparr>skip_git := True\<rparr>)"
    by (auto simp: init_def split: if_splits sum.splits)
  then show ?thesis
    using run_frame [of h s r s'] ensureSubmodulesAvailable_frame [of h s r s']
      buildQtBase_frame [of h s r s'] buildQtWebKit_frame [of h s r s']
      buildPhantomJS_frame [of h s r s']
    by blast
qed

text \<open>Construction in a tree without \<open>.git\<close>, and a dry run in a tree with it.\<close>

theorem C9_options_after_construction_witness:
  "init linux_host no_args tarball_tree [] =
     Inr (example_state (no_args\<lparr>skip_git := True\<rparr>) tarball_tree)
   \<and> \<not> isdir tarball_tree ''.git''
   \<and> options (example_state (no_args\<lparr>skip_git := True\<rparr>) tarball_tree) = no_args\<lparr>skip_git := True\<rparr>
   \<and> options (snd (run linux_host (example_state (no_args\<lparr>dry_run := True\<rparr>) git_tree))) =
       no_args\<lparr>dry_run := True\<rparr>"
proof -
  have i: "init linux_host no_args tarball_tree [] =
     Inr (example_state (no_args\<lparr>skip_git := True\<rparr>) tarball_tree)"
    by (simp add: init_def example_defs getenv_def)
  have g: "\<not> isdir tarball_tree ''.git''"
    by (simp add: tarball_tree_def)
  have r: "run linux_host (example_state (no_args\<lparr>dry_run := True\<rparr>) git_tree) =
     (fst (run linux_host (example_state (no_args\<lparr>dry_run := True\<rparr>) git_tree)),
      snd (run linux_host (example_state (no_args\<lparr>dry_run := True\<rparr>) git_tree)))"
    by simp
  show ?thesis
    using i g r
      C9_options_after_construction [of linux_host no_args tarball_tree "[]"
        "example_state (no_args\<lparr>skip_git := True\<rparr>) tarball_tree"]
      C9_options_after_construction [of linux_host _ _ _
        "example_state (no_args\<lparr>dry_run := True\<rparr>) git_tree"
        "fst (run linux_host (example_state (no_args\<lparr>dry_run := True\<rparr>) git_tree))"
        "snd (run linux_host (example_state (no_args\<lparr>dry_run := True\<rparr>) git_tree))"]
    by (simp add: example_state_def)
qed

text \<open>The claim as first stated fails for \<open>skip_git\<close>: parsing a command line without
  options leaves it unset, and the constructor sets it in a tree without \<open>.git\<close>.\<close>

theorem C9_skip_git_forced_counterexample:
  "init linux_host no_args tarball_tree [] =
     Inr (example_state (no_args\<lparr>skip_git := True\<rparr>) tarball_tree)
   \<and> \<not> skip_git no_args"
  by (simp add: init_def example_defs getenv_def)

subsection \<open>C3: the skip flags\<close>

text \<open>
  C3, as amended. For every combination of the other options: with \<open>skip_qtbase\<close> the
  base-layer stage invokes nothing (it only prints that it is skipped); with
  \<open>skip_qtwebkit\<close> the engine stage invokes nothing; with \<open>skip_git\<close> the submodule
  stage and every git clean step invoke nothing. With \<open>skip_configure_qtbase\<close>, and
  \<open>git_clean_qtbase\<close> not set, the base-layer stage never invokes configure: the only
  command line that \<open>execute\<close> receives in that stage is the make command (none at
  all when the stage is skipped).
\<close>

theorem C3_skip_flags:
  "(skip_qtbase (options s) \<longrightarrow>
      buildQtBase h s = (Inr (), s\<lparr>out := out s @ [Print ''Skipping build of Qt Base'']\<rparr>))
   \<and> (skip_qtwebkit (options s) \<longrightarrow>
      buildQtWebKit h s = (Inr (), s\<lparr>out := out s @ [Print ''Skipping build of Qt WebKit'']\<rparr>))
   \<and> (skip_git (options s) \<longrightarrow>
      ensureSubmodulesAvailable h s = (Inr (), s) \<and> gitClean h path s = (Inr 0, s))
   \<and> (skip_configure_qtbase (options s) \<and> \<not> git_clean_qtbase (options s) \<longrightarrow>
      echoes (out (snd (buildQtBase h s))) =
        echoes (out s) @
        (if skip_qtbase (options s) then []
         else [Executing (abspath h ''src/qt/qtbase'') (map str (makeCommand s))]))"
  by (auto simp: buildQtBase_def buildQtWebKit_def ensureSubmodulesAvailable_def gitClean_def
        emit_def returnM_def raiseM_def bindM_def subprocess_call_def make_def execute_def Let_def
        echoes_def split: prod.splits sum.splits)

text \<open>Each of the four flags on the example host.\<close>

theorem C3_skip_flags_witness:
  "skip_qtbase (options (example_state (no_args\<lparr>skip_qtbase := True\<rparr>) git_tree))
   \<and> spawns (out (snd (buildQtBase linux_host
        (example_state (no_args\<lparr>skip_qtbase := True\<rparr>) git_tree)))) = []
   \<and> skip_qtwebkit (options (example_state (no_args\<lparr>skip_qtwebkit := True\<rparr>) git_tree))
   \<and> echoes (out (snd (buildQtWebKit linux_host
        (example_state (no_args\<lparr>skip_qtwebkit := True\<rparr>) git_tree)))) = []
   \<and> skip_git (options (example_state (no_args\<lparr>skip_git := True\<rparr>) git_tree))
   \<and> out (snd (gitClean linux_host ''src/qt/qtbase''
        (example_state (no_args\<lparr>skip_git := True\<rparr>) git_tree))) = []
   \<and> skip_configure_qtbase (options (example_state (no_args\<lparr>skip_configure_qtbase := True\<rparr>) git_tree))
   \<and> \<not> git_clean_qtbase (options (example_state (no_args\<lparr>skip_configure_qtbase := True\<rparr>) git_tree))
   \<and> echoes (out (snd (buildQtBase linux_host
        (example_state (no_args\<lparr>skip_configure_qtbase := True\<rparr>) git_tree)))) =
       [Executing ''/w/src/qt/qtbase'' [''make'', ''-j'', ''8'']]"
proof -
  let ?b = "example_state (no_args\<lparr>skip_qtbase := True\<rparr>) git_tree"
  let ?w = "example_state (no_args\<lparr>skip_qtwebkit := True\<rparr>) git_tree"
  let ?g = "example_state (no_args\<lparr>skip_git := True\<rparr>) git_tree"
  let ?c = "example_state (no_args\<lparr>skip_configure_qtbase := True\<rparr>) git_tree"
  have hb: "skip_qtbase (options ?b)" and hw: "skip_qtwebkit (options ?w)"
    and hg: "skip_git (options ?g)"
    and hc: "skip_configure_qtbase (options ?c)" "\<not> git_clean_qtbase (options ?c)"
      "\<not> skip_qtbase (options ?c)"
    by (simp_all add: example_state_def no_args_def)
  have m: "map str (makeCommand ?c) = [''make'', ''-j'', ''8'']"
    unfolding example_state_def by code_simp
  have a: "abspath linux_host ''src/qt/qtbase'' = ''/w/src/qt/qtbase''"
    by (simp add: linux_host_def example_abspath_def)
  have o: "echoes (out ?c) = []"
    by (simp add: example_state_def echoes_def)
  from C3_skip_flags [of ?b linux_host] hb
  have "buildQtBase linux_host ?b = (Inr (), ?b\<lparr>out := out ?b @ [Print ''Skipping build of Qt Base'']\<rparr>)"
    by blast
  then have 1: "spawns (out (snd (buildQtBase linux_host ?b))) = []"
    by (simp add: spawns_def example_state_def)
  from C3_skip_flags [of ?w linux_host] hw
  have "buildQtWebKit linux_host ?w =
          (Inr (), ?w\<lparr>out := out ?w @ [Print ''Skipping build of Qt WebKit'']\<rparr>)"
    by blast
  then have 2: "echoes (out (snd (buildQtWebKit linux_host ?w))) = []"
    by (simp add: echoes_def example_state_def)
  from C3_skip_flags [of ?g linux_host "''src/qt/qtbase''"] hg
  have "gitClean linux_host ''src/qt/qtbase'' ?g = (Inr 0, ?g)"
    by blast
  then have 3: "out (snd (gitClean linux_host ''src/qt/qtbase'' ?g)) = []"
    by (simp add: example_state_def)
  from C3_skip_flags [of ?c linux_host] hc
  have "echoes (out (snd (buildQtBase linux_host ?c))) =
          echoes (out ?c) @
          [Executing (abspath linux_host ''src/qt/qtbase'') (map str (makeCommand ?c))]"
    by simp
  then have 4: "echoes (out (snd (buildQtBase linux_host ?c))) =
          [Executing ''/w/src/qt/qtbase'' [''make'', ''-j'', ''8'']]"
    by (simp only: m a o append_Nil)
  from hb 1 hw 2 hg 3 hc(1) hc(2) 4 show ?thesis by blast
qed

text \<open>The claim as first stated fails for \<open>skip_configure_qtbase\<close>: together with
  \<open>git_clean_qtbase\<close> the base-layer stage still invokes configure.\<close>

theorem C3_configure_despite_skip_counterexample:
  "programs (out (snd (buildQtBase linux_host
      (example_state (no_args\<lparr>skip_configure_qtbase := True, git_clean_qtbase := True,
                              dry_run := True\<rparr>) git_tree)))) =
     [''git'', ''/w/src/qt/qtbase/configure'', ''make'']"
  by (simp add: step_defs example_defs programs_def configure_prefix_def)

subsection \<open>C2: dry run\<close>

text \<open>
  C2 does not hold of the code. With \<open>--dry-run --confirm\<close> on the example host the
  run prints its command lines without starting them through \<open>execute\<close>, but the
  stages still start five shells through \<open>subprocess.call\<close>: two \<open>rm\<close>, one
  \<open>rm -rf\<close> and two \<open>cp\<close>. The help text of \<open>--dry-run\<close> promises that nothing is
  executed.
\<close>

theorem C2_dry_run_still_spawns:
  "spawns (snd (main linux_host (no_args\<lparr>dry_run := True, confirm := True\<rparr>) [] git_tree)) =
     [Call ''rm /w/src/qt/qtbase/lib/libQt5WebKit*'',
      Call ''rm /w/src/qt/qtbase/mkspecs/modules/qt_lib_webkit*'',
      Call ''rm -rf /w/src/qt/qtwebkit'',
      Call ''cp /w/src/qt/qtwebkit/lib/libQt5WebKit* /w/src/qt/qtbase/lib'',
      Call ''cp /w/src/qt/qtwebkit/mkspecs/modules/qt_lib_webkit* /w/src/qt/qtbase/mkspecs/modules'']"
  by code_simp

end
